theory Spec2Isabelle
  imports Main
begin

section \<open>Values exchanged with the transport\<close>

text \<open>
  The client of \<^verbatim>\<open>src/aryn_sdk/client/client.py\<close> talks to the server through
  \<^verbatim>\<open>httpx\<close>. A JSON document, as \<^verbatim>\<open>res.json()\<close> returns it, is a value of
  \<open>json_value\<close>; a Python dict is an association list read with \<open>map_of\<close>.
\<close>

datatype json_value =
    JNull
  | JBool bool
  | JNum int
  | JStr string
  | JList "json_value list"
  | JObj "(string \<times> json_value) list"

text \<open>
  A query parameter value: the listing operations pass integers (\<^verbatim>\<open>page_size\<close>) and
  strings, the task operations pass \<^verbatim>\<open>Optional[str]\<close>. A parameter whose value is
  \<^verbatim>\<open>None\<close> is kept in the dict with the value \<open>None\<close>, as the source passes it to
  \<^verbatim>\<open>build_request\<close>.
\<close>

datatype param = PStr string | PInt int

text \<open>
  What \<^verbatim>\<open>self.client.build_request(method, url, params=..., json=..., headers=...)\<close>
  is given. \<open>params = None\<close> is \<^verbatim>\<open>params=None\<close> (also the value of
  \<^verbatim>\<open>params or None\<close> on an empty dict).
\<close>

record request =
  http_method :: string
  url :: string
  params :: "(string \<times> param option) list option"
  json_body :: "json_value option"
  req_headers :: "(string \<times> string) list option"

text \<open>
  An \<^verbatim>\<open>httpx.Response\<close>, by what the client observes of it:
  \<open>status_code\<close>; \<open>headers res k\<close> is \<^verbatim>\<open>res.headers.get(k)\<close> (\<open>None\<close> when the
  header is absent); \<open>content\<close> is the raw body \<^verbatim>\<open>res.content\<close>; \<open>json\<close> is the
  outcome of the call \<^verbatim>\<open>res.json()\<close>, \<open>None\<close> when it raises its decode error.
\<close>

record response =
  status_code :: int
  headers :: "string \<Rightarrow> string option"
  content :: string
  json :: "json_value option"

text \<open>
  Every exception the modelled code can raise. \<open>TransportError\<close> is whatever
  \<^verbatim>\<open>httpx\<close> raises from \<^verbatim>\<open>send\<close>; \<open>ArynSDKException\<close> carries the raw response;
  \<open>FileError\<close> is whatever \<^verbatim>\<open>open\<close> or \<^verbatim>\<open>yaml.safe_load\<close> raises.
\<close>

datatype error =
    TransportError string
  | ArynSDKException response
  | JSONDecodeError
  | ValidationError
  | AttributeError
  | TypeError
  | KeyError
  | ValueError string
  | FileError string

text \<open>
  Modelled from the spec: the classes \<^verbatim>\<open>Response\<close> and \<^verbatim>\<open>SimpleResponse\<close> of
  \<^verbatim>\<open>response.py\<close>, which is not among the source files. The spec's result
  envelope is the pair of the raw transport response and the decoded value; the
  acknowledgement envelope holds the raw response only.
\<close>

datatype 'a Response = Response (raw_response: response) (response_value: 'a)

datatype SimpleResponse = SimpleResponse (simple_raw_response: response)

text \<open>
  Modelled from the spec: the class \<^verbatim>\<open>AsyncTask\<close> of \<^verbatim>\<open>tasks.py\<close>, which is not
  among the source files. The spec's task handle is the task id, the submission
  method and path (optional client-side filters) and the declared result type; the
  result type is the decoder \<open>task_response_type\<close> of the result shape.
\<close>

record 'a AsyncTask =
  task_id :: string
  task_method :: "string option"
  task_path :: "string option"
  task_response_type :: "(string \<times> json_value) list \<Rightarrow> error + 'a"

text \<open>The argument \<^verbatim>\<open>task: Union[AsyncTask, str]\<close> of the task operations.\<close>

datatype 'a task_arg = Handle "'a AsyncTask" | BareId string

section \<open>The transport\<close>

text \<open>
  \<^verbatim>\<open>self.client.send(req)\<close> is a round trip to a server whose answer may depend on
  everything it was sent before. The transport is a function of the requests sent so
  far and of the request; the state threaded through every operation is the list of
  requests sent, oldest first.
\<close>

type_synonym transport = "request list \<Rightarrow> request \<Rightarrow> error + response"

definition send :: "transport \<Rightarrow> request \<Rightarrow> request list \<Rightarrow> (error + response) \<times> request list" where
  "send tr req sent = (tr sent req, sent @ [req])"

section \<open>The client core\<close>

text \<open>
  \<^verbatim>\<open>
  def _make_raw_request(self, req):
      res = self.client.send(req)
      if res.status_code >= 300:
          raise ArynSDKException(res)
      return res
  \<close>
\<close>

definition make_raw_request :: "transport \<Rightarrow> request \<Rightarrow> request list \<Rightarrow> (error + response) \<times> request list" where
  "make_raw_request tr req sent =
     (case send tr req sent of
        (Inl e, sent') \<Rightarrow> (Inl e, sent')
      | (Inr res, sent') \<Rightarrow>
          if status_code res \<ge> 300 then (Inl (ArynSDKException res), sent')
          else (Inr res, sent'))"

text \<open>
  \<^verbatim>\<open>
  def _make_request(self, req, response_type):
      res = self._make_raw_request(req)
      return Response(raw_response=res, value=response_type(**res.json()))
  \<close>
  \<^verbatim>\<open>res.json()\<close> raises its decode error on a body that is not JSON; \<^verbatim>\<open>**\<close>
  raises \<^verbatim>\<open>TypeError\<close> on a value that is not a mapping; \<^verbatim>\<open>response_type(...)\<close>,
  a pydantic model, raises its validation error or returns the value.
\<close>

definition make_request ::
  "transport \<Rightarrow> request \<Rightarrow> ((string \<times> json_value) list \<Rightarrow> error + 'a) \<Rightarrow> request list
     \<Rightarrow> (error + 'a Response) \<times> request list" where
  "make_request tr req response_type sent =
     (case make_raw_request tr req sent of
        (Inl e, sent') \<Rightarrow> (Inl e, sent')
      | (Inr res, sent') \<Rightarrow>
          (case json res of
             None \<Rightarrow> (Inl JSONDecodeError, sent')
           | Some (JObj kvs) \<Rightarrow>
               (case response_type kvs of
                  Inl e \<Rightarrow> (Inl e, sent')
                | Inr v \<Rightarrow> (Inr (Response res v), sent'))
           | Some _ \<Rightarrow> (Inl TypeError, sent')))"

subsection \<open>Async task operations\<close>

text \<open>
  \<^verbatim>\<open>
  def _get_task_and_filters(self, task):
      method_filter = None
      path_filter = None
      if isinstance(task, AsyncTask):
          task_id = task.task_id
          if (method := task.method) is not None:
              method_filter = method
          if (path := task.path) is not None:
              path_filter = path
      else:
          task_id = task
      return task_id, method_filter, path_filter
  \<close>
\<close>

fun get_task_and_filters :: "'a task_arg \<Rightarrow> string \<times> string option \<times> string option" where
  "get_task_and_filters (Handle task) =
     (task_id task,
      (case task_method task of Some m \<Rightarrow> Some m | None \<Rightarrow> None),
      (case task_path task of Some p \<Rightarrow> Some p | None \<Rightarrow> None))"
| "get_task_and_filters (BareId task) = (task, None, None)"

text \<open>
  The two requests of the task operations, as the source builds them:
  \<^verbatim>\<open>
  self.client.build_request("POST", f"/v1/async/cancel/{task_id}",
      params={"method_filter": method_filter, "path_filter": path_filter})
  self.client.build_request("GET", f"/v1/async/result/{task_id}",
      params={"method_filter": method_filter, "path_filter": path_filter})
  \<close>
\<close>

definition filter_params :: "string option \<Rightarrow> string option \<Rightarrow> (string \<times> param option) list" where
  "filter_params method_filter path_filter =
     [(''method_filter'', map_option PStr method_filter),
      (''path_filter'', map_option PStr path_filter)]"

definition cancel_request :: "'a task_arg \<Rightarrow> request" where
  "cancel_request task =
     (case get_task_and_filters task of
        (tid, method_filter, path_filter) \<Rightarrow>
          \<lparr>http_method = ''POST'', url = ''/v1/async/cancel/'' @ tid,
           params = Some (filter_params method_filter path_filter),
           json_body = None, req_headers = None\<rparr>)"

definition result_request :: "'a task_arg \<Rightarrow> request" where
  "result_request task =
     (case get_task_and_filters task of
        (tid, method_filter, path_filter) \<Rightarrow>
          \<lparr>http_method = ''GET'', url = ''/v1/async/result/'' @ tid,
           params = Some (filter_params method_filter path_filter),
           json_body = None, req_headers = None\<rparr>)"

text \<open>
  \<^verbatim>\<open>
  def cancel_async_task(self, task):
      task_id, method_filter, path_filter = self._get_task_and_filters(task)
      req = self.client.build_request("POST", ...)
      res = self._make_raw_request(req)
      return SimpleResponse(res)
  \<close>
\<close>

definition cancel_async_task ::
  "transport \<Rightarrow> 'a task_arg \<Rightarrow> request list \<Rightarrow> (error + SimpleResponse) \<times> request list" where
  "cancel_async_task tr task sent =
     (case make_raw_request tr (cancel_request task) sent of
        (Inl e, sent') \<Rightarrow> (Inl e, sent')
      | (Inr res, sent') \<Rightarrow> (Inr (SimpleResponse res), sent'))"

definition get_async_result_internal ::
  "transport \<Rightarrow> 'a task_arg \<Rightarrow> request list \<Rightarrow> (error + response) \<times> request list" where
  "get_async_result_internal tr task sent = make_raw_request tr (result_request task) sent"

text \<open>
  \<^verbatim>\<open>str.lower()\<close> on the characters of a header value. Only the ASCII capitals
  change; no other character lower-cases to a character of \<^verbatim>\<open>application/json\<close>.
\<close>

definition lower_char :: "char \<Rightarrow> char" where
  "lower_char c =
     (case map_of (zip ''ABCDEFGHIJKLMNOPQRSTUVWXYZ'' ''abcdefghijklmnopqrstuvwxyz'') c of
        Some l \<Rightarrow> l
      | None \<Rightarrow> c)"

definition str_lower :: "string \<Rightarrow> string" where
  "str_lower s = map lower_char s"

text \<open>
  The value \<^verbatim>\<open>get_async_result\<close> pairs with the raw response: \<^verbatim>\<open>res.json()\<close> or
  the bytes \<^verbatim>\<open>res.content\<close>. Its return type is
  \<^verbatim>\<open>Union[SimpleResponse, Response]\<close>.
\<close>

datatype poll_content = JsonContent json_value | RawContent string

datatype poll_result = Pending SimpleResponse | Ready "poll_content Response"

text \<open>
  \<^verbatim>\<open>
  def get_async_result(self, task):
      res = self._get_async_result_internal(task)
      if res.status_code == 200:
          if res.headers.get("Content-Type").lower() == "application/json":
              content = res.json()
          else:
              content = res.content
          return Response(res, content)
      elif res.status_code == 202:
          return SimpleResponse(res)
      # This should be unreachable, as other status codes should be handled by _make_raw_request
      logging.error(...)
      raise ArynSDKException(res)
  \<close>
  \<^verbatim>\<open>.lower()\<close> on the \<^verbatim>\<open>None\<close> of an absent header raises \<^verbatim>\<open>AttributeError\<close>.
\<close>

definition get_async_result ::
  "transport \<Rightarrow> 'a task_arg \<Rightarrow> request list \<Rightarrow> (error + poll_result) \<times> request list" where
  "get_async_result tr task sent =
     (case get_async_result_internal tr task sent of
        (Inl e, sent') \<Rightarrow> (Inl e, sent')
      | (Inr res, sent') \<Rightarrow>
          if status_code res = 200 then
            (case headers res ''Content-Type'' of
               None \<Rightarrow> (Inl AttributeError, sent')
             | Some ct \<Rightarrow>
                 if str_lower ct = ''application/json'' then
                   (case json res of
                      None \<Rightarrow> (Inl JSONDecodeError, sent')
                    | Some v \<Rightarrow> (Inr (Ready (Response res (JsonContent v))), sent'))
                 else (Inr (Ready (Response res (RawContent (content res)))), sent'))
          else if status_code res = 202 then (Inr (Pending (SimpleResponse res)), sent')
          else (Inl (ArynSDKException res), sent'))"

subsection \<open>Listing operations\<close>

text \<open>
  Modelled from the spec: the class \<^verbatim>\<open>PaginatedResponse\<close> of \<^verbatim>\<open>response.py\<close>,
  which is not among the source files. Its fields are the constructor arguments the
  source passes; \<open>request_descriptor\<close> stands for \<^verbatim>\<open>request_args\<close> and
  \<^verbatim>\<open>request_kwargs\<close>, the arguments \<^verbatim>\<open>build_request\<close> is called with again for
  each further page.
\<close>

record 'a PaginatedResponse =
  first_response :: response
  item_type :: "(string \<times> json_value) list \<Rightarrow> error + 'a"
  list_key :: string
  request_descriptor :: request

text \<open>
  \<^verbatim>\<open>
  def _make_paginated_request(self, req, responseType, list_key, *request_args, **request_kwargs):
      res = self._make_raw_request(req)
      return PaginatedResponse(client=self, first_response=res, response_type=responseType,
          list_key=list_key, request_args=list(request_args), request_kwargs=request_kwargs)
  \<close>
\<close>

definition make_paginated_request ::
  "transport \<Rightarrow> request \<Rightarrow> ((string \<times> json_value) list \<Rightarrow> error + 'a) \<Rightarrow> string \<Rightarrow> request
     \<Rightarrow> request list \<Rightarrow> (error + 'a PaginatedResponse) \<times> request list" where
  "make_paginated_request tr req responseType key descriptor sent =
     (case make_raw_request tr req sent of
        (Inl e, sent') \<Rightarrow> (Inl e, sent')
      | (Inr res, sent') \<Rightarrow>
          (Inr \<lparr>first_response = res, item_type = responseType, list_key = key,
                request_descriptor = descriptor\<rparr>, sent'))"

text \<open>
  \<^verbatim>\<open>
  def list_docsets(self, *, name_eq=None, page_size=None, page_token=None, extra_headers=None):
      params = {}
      if name_eq is not None: params["name_eq"] = name_eq
      if page_size is not None: params["page_size"] = page_size
      if page_token is not None: params["page_token"] = page_token
      args = ("GET", "/v1/storage/docsets")
      kwargs = {"params": params or None, "headers": extra_headers}
      req = self.client.build_request(*args, **kwargs)
      return self._make_paginated_request(req, DocSetMetadata, "items", *args, **kwargs)
  \<close>
  The shape \<^verbatim>\<open>DocSetMetadata\<close> is the parameter \<open>DocSetMetadata\<close>.
\<close>

definition opt_param :: "string \<Rightarrow> param option \<Rightarrow> (string \<times> param option) list" where
  "opt_param k v = (case v of None \<Rightarrow> [] | Some x \<Rightarrow> [(k, Some x)])"

definition or_None :: "'a list \<Rightarrow> 'a list option" where
  "or_None xs = (if xs = [] then None else Some xs)"

definition list_docsets_request ::
  "string option \<Rightarrow> int option \<Rightarrow> string option \<Rightarrow> (string \<times> string) list option \<Rightarrow> request" where
  "list_docsets_request name_eq page_size page_token extra_headers =
     \<lparr>http_method = ''GET'', url = ''/v1/storage/docsets'',
      params = or_None (opt_param ''name_eq'' (map_option PStr name_eq)
                 @ opt_param ''page_size'' (map_option PInt page_size)
                 @ opt_param ''page_token'' (map_option PStr page_token)),
      json_body = None, req_headers = extra_headers\<rparr>"

definition list_docsets ::
  "transport \<Rightarrow> ((string \<times> json_value) list \<Rightarrow> error + 'a)
     \<Rightarrow> string option \<Rightarrow> int option \<Rightarrow> string option \<Rightarrow> (string \<times> string) list option
     \<Rightarrow> request list \<Rightarrow> (error + 'a PaginatedResponse) \<times> request list" where
  "list_docsets tr DocSetMetadata name_eq page_size page_token extra_headers sent =
     (let req = list_docsets_request name_eq page_size page_token extra_headers
      in make_paginated_request tr req DocSetMetadata ''items'' req sent)"

text \<open>
  \<^verbatim>\<open>
  def list_docs(self, *, docset_id, page_size=None, page_token=None, extra_headers=None):
      page_param = {}
      if page_size is not None: page_param["page_size"] = page_size
      if page_token is not None: page_param["page_token"] = page_token
      args = ("GET", f"/v1/storage/docsets/{docset_id}/docs")
      kwargs = {"params": page_param or None, "headers": extra_headers}
      req = self.client.build_request(*args, **kwargs)
      return self._make_paginated_request(req, DocumentMetadata, "items", *args, **kwargs)
  \<close>
\<close>

definition list_docs_request ::
  "string \<Rightarrow> int option \<Rightarrow> string option \<Rightarrow> (string \<times> string) list option \<Rightarrow> request" where
  "list_docs_request docset_id page_size page_token extra_headers =
     \<lparr>http_method = ''GET'', url = ''/v1/storage/docsets/'' @ docset_id @ ''/docs'',
      params = or_None (opt_param ''page_size'' (map_option PInt page_size)
                 @ opt_param ''page_token'' (map_option PStr page_token)),
      json_body = None, req_headers = extra_headers\<rparr>"

definition list_docs ::
  "transport \<Rightarrow> ((string \<times> json_value) list \<Rightarrow> error + 'a)
     \<Rightarrow> string \<Rightarrow> int option \<Rightarrow> string option \<Rightarrow> (string \<times> string) list option
     \<Rightarrow> request list \<Rightarrow> (error + 'a PaginatedResponse) \<times> request list" where
  "list_docs tr DocumentMetadata docset_id page_size page_token extra_headers sent =
     (let req = list_docs_request docset_id page_size page_token extra_headers
      in make_paginated_request tr req DocumentMetadata ''items'' req sent)"

text \<open>
  Modelled from the spec: reading one page, which \<^verbatim>\<open>response.py\<close> does and which is
  not among the source files. The spec's wire contract: the response body contains an
  items array at a well-known key and an optional \<^verbatim>\<open>next_page_token\<close> field
  signalling continuation; a token that is absent or null means the last page.
\<close>

definition page_of :: "string \<Rightarrow> response \<Rightarrow> error + (json_value list \<times> string option)" where
  "page_of key res =
     (case json res of
        None \<Rightarrow> Inl JSONDecodeError
      | Some (JObj kvs) \<Rightarrow>
          (case map_of kvs key of
             None \<Rightarrow> Inl KeyError
           | Some (JList items) \<Rightarrow>
               Inr (items, (case map_of kvs ''next_page_token'' of
                              Some (JStr t) \<Rightarrow> Some t
                            | _ \<Rightarrow> None))
           | Some _ \<Rightarrow> Inl TypeError)
      | Some _ \<Rightarrow> Inl TypeError)"

text \<open>
  Modelled from the spec: decoding the raw items of a page as the item shape, in the
  order the server returned them; the first item that does not decode is the failure.
\<close>

fun decode_items :: "((string \<times> json_value) list \<Rightarrow> error + 'a) \<Rightarrow> json_value list \<Rightarrow> error + 'a list" where
  "decode_items ty [] = Inr []"
| "decode_items ty (JObj kvs # rest) =
     (case ty kvs of
        Inl e \<Rightarrow> Inl e
      | Inr v \<Rightarrow> (case decode_items ty rest of Inl e \<Rightarrow> Inl e | Inr vs \<Rightarrow> Inr (v # vs)))"
| "decode_items ty (_ # rest) = Inl TypeError"

text \<open>
  Modelled from the spec: re-issuing the page request descriptor with the page-token
  parameter set to the continuation token, all other parameters unchanged.
\<close>

definition with_page_token :: "request \<Rightarrow> string \<Rightarrow> request" where
  "with_page_token descriptor t =
     descriptor\<lparr>params :=
       Some (filter (\<lambda>kv. fst kv \<noteq> ''page_token'')
               (case params descriptor of None \<Rightarrow> [] | Some ps \<Rightarrow> ps)
             @ [(''page_token'', Some (PStr t))])\<rparr>"

text \<open>
  Modelled from the spec: the traversal of section 4.3, drained into an ordered
  collection. \<open>res\<close> is the held page and \<open>acc\<close> the items yielded so far:
  \<^enum> yield each decoded item of the held page, in the server's order;
  \<^enum> when the held page is exhausted and carried a continuation token, re-issue the
    descriptor with that token, pass the response through the error classifier, and
    continue with the new page;
  \<^enum> when the held page carries no continuation token, the sequence ends.
  A server that hands out a token with every page keeps the traversal running
  forever: the result is \<open>None\<close> then.
\<close>

partial_function (option) drain ::
  "transport \<Rightarrow> 'a PaginatedResponse \<Rightarrow> response \<Rightarrow> 'a list \<Rightarrow> request list
     \<Rightarrow> ((error + 'a list) \<times> request list) option" where
  "drain tr eng res acc sent =
     (case page_of (list_key eng) res of
        Inl e \<Rightarrow> Some (Inl e, sent)
      | Inr (items, token) \<Rightarrow>
          (case decode_items (item_type eng) items of
             Inl e \<Rightarrow> Some (Inl e, sent)
           | Inr vs \<Rightarrow>
               (case token of
                  None \<Rightarrow> Some (Inr (acc @ vs), sent)
                | Some t \<Rightarrow>
                    (case make_raw_request tr (with_page_token (request_descriptor eng) t) sent of
                       (Inl e, sent') \<Rightarrow> Some (Inl e, sent')
                     | (Inr res', sent') \<Rightarrow> drain tr eng res' (acc @ vs) sent'))))"

definition materialize ::
  "transport \<Rightarrow> 'a PaginatedResponse \<Rightarrow> request list \<Rightarrow> ((error + 'a list) \<times> request list) option" where
  "materialize tr eng sent = drain tr eng (first_response eng) [] sent"

section \<open>Configuration\<close>

text \<open>
  \<^verbatim>\<open>src/aryn_sdk/client/config.py\<close>. The process environment is \<open>environ\<close>
  (\<^verbatim>\<open>os.getenv\<close>). The file system is \<open>files\<close>: \<open>None\<close> for a path that does not
  exist, \<open>Some (Inl e)\<close> for a file on which \<^verbatim>\<open>open\<close> or \<^verbatim>\<open>yaml.safe_load\<close>
  raises \<open>e\<close>, \<open>Some (Inr data)\<close> for a file that loads as \<open>data\<close>. Loaded YAML is
  written with the constructors of \<open>json_value\<close> (\<open>JNull\<close> is Python's \<^verbatim>\<open>None\<close>, the
  value of an empty file).
\<close>

type_synonym environ = "string \<Rightarrow> string option"

type_synonym files = "string \<Rightarrow> (error + json_value) option"

definition ARYN_API_KEY_ENV_VAR :: string where
  "ARYN_API_KEY_ENV_VAR = ''ARYN_API_KEY''"

definition ARYN_URL_ENV_VAR :: string where
  "ARYN_URL_ENV_VAR = ''ARYN_API_URL''"

definition DEFAULT_ARYN_URL :: string where
  "DEFAULT_ARYN_URL = ''https://api.aryn.ai''"

text \<open>
  The fields of \<^verbatim>\<open>ArynConfig\<close>; \<open>p_aryn_config_path\<close> is the string of
  \<^verbatim>\<open>Path(aryn_config_path)\<close>, as the error messages print it.
\<close>

record ArynConfig =
  p_aryn_config_path :: string
  p_aryn_api_key :: "string option"
  p_aryn_url :: "string option"

text \<open>Python's substring test on strings: \<^verbatim>\<open>k in s\<close>.\<close>

fun str_contains :: "string \<Rightarrow> string \<Rightarrow> bool" where
  "str_contains k [] = (k = [])"
| "str_contains k (c # cs) = (take (length k) (c # cs) = k \<or> str_contains k cs)"

text \<open>
  \<^verbatim>\<open>key in data\<close> for a string \<open>key\<close>: key membership in a dict, element membership
  in a list, the substring test on a string, and \<^verbatim>\<open>TypeError\<close> on a value that is
  not iterable (\<^verbatim>\<open>None\<close>, a boolean, a number).
\<close>

fun py_contains :: "string \<Rightarrow> json_value \<Rightarrow> error + bool" where
  "py_contains k (JObj kvs) = Inr (map_of kvs k \<noteq> None)"
| "py_contains k (JList xs) = Inr (JStr k \<in> set xs)"
| "py_contains k (JStr s) = Inr (str_contains k s)"
| "py_contains k _ = Inl TypeError"

text \<open>
  \<^verbatim>\<open>data[key]\<close> for a string \<open>key\<close>: the dict's value (\<^verbatim>\<open>KeyError\<close> without the
  key), and \<^verbatim>\<open>TypeError\<close> on a list or a string (their indices are integers) and on
  a value that cannot be subscripted.
\<close>

fun py_getitem :: "json_value \<Rightarrow> string \<Rightarrow> error + json_value" where
  "py_getitem (JObj kvs) k = (case map_of kvs k of None \<Rightarrow> Inl KeyError | Some v \<Rightarrow> Inr v)"
| "py_getitem _ k = Inl TypeError"

text \<open>The truth value of \<^verbatim>\<open>val := os.getenv(...)\<close>: set and not the empty string.\<close>

definition truthy :: "string option \<Rightarrow> bool" where
  "truthy v = (case v of None \<Rightarrow> False | Some s \<Rightarrow> s \<noteq> [])"

definition api_key_message :: "ArynConfig \<Rightarrow> string" where
  "api_key_message cfg =
     ''Could not find an aryn api key. Checked the '' @ ARYN_API_KEY_ENV_VAR @ '' env ''
     @ ''var, the '' @ p_aryn_config_path cfg @ '' config file, and the aryn_api_key parameter''"

text \<open>
  \<^verbatim>\<open>
  def api_key(self) -> str:
      if self._aryn_api_key is not None:
          return self._aryn_api_key
      if val := os.getenv(_ARYN_API_KEY_ENV_VAR):
          return val
      if Path(self._aryn_config_path).exists():
          with open(self._aryn_config_path, "r") as f:
              data = yaml.safe_load(f)
              if "aryn_token" in data:
                  return data["aryn_token"]
      raise ValueError(
          f"Could not find an aryn api key. Checked the {_ARYN_API_KEY_ENV_VAR} env "
          f"var, the {self._aryn_config_path} config file, and the aryn_api_key parameter")
  \<close>
  The value returned from the config file is whatever the file holds under the key.
\<close>

definition api_key :: "ArynConfig \<Rightarrow> environ \<Rightarrow> files \<Rightarrow> error + json_value" where
  "api_key cfg env fs =
     (case p_aryn_api_key cfg of
        Some k \<Rightarrow> Inr (JStr k)
      | None \<Rightarrow>
          if truthy (env ARYN_API_KEY_ENV_VAR) then Inr (JStr (the (env ARYN_API_KEY_ENV_VAR)))
          else
            (case fs (p_aryn_config_path cfg) of
               None \<Rightarrow> Inl (ValueError (api_key_message cfg))
             | Some (Inl e) \<Rightarrow> Inl e
             | Some (Inr data) \<Rightarrow>
                 (case py_contains ''aryn_token'' data of
                    Inl e \<Rightarrow> Inl e
                  | Inr True \<Rightarrow> py_getitem data ''aryn_token''
                  | Inr False \<Rightarrow> Inl (ValueError (api_key_message cfg)))))"

definition aryn_url_message :: "ArynConfig \<Rightarrow> string" where
  "aryn_url_message cfg =
     ''Could not find an aryn url. Checked the '' @ ARYN_URL_ENV_VAR @ '' env ''
     @ ''var, the '' @ p_aryn_config_path cfg @ '' config file, and the aryn_url parameter''"

text \<open>
  \<^verbatim>\<open>
  def aryn_url(self) -> str:
      url = None
      if self._aryn_url is not None:
          url = self._aryn_url
      elif val := os.getenv(_ARYN_URL_ENV_VAR):
          url = val
      elif Path(self._aryn_config_path).exists():
          with open(self._aryn_config_path, "r") as f:
              data = yaml.safe_load(f)
              if "aryn_url" in data:
                  url = data["aryn_url"]
      else:
          url = _DEFAULT_ARYN_URL
      if url is None:
          raise ValueError(f"Could not find an aryn url. Checked the ... parameter")
      return url
  \<close>
  The variable \<^verbatim>\<open>url\<close> is \<open>JNull\<close> while it is \<^verbatim>\<open>None\<close>; \<open>aryn_url_found\<close> is the
  code after the \<^verbatim>\<open>if\<close> chain.
\<close>

definition aryn_url_found :: "ArynConfig \<Rightarrow> json_value \<Rightarrow> error + json_value" where
  "aryn_url_found cfg u = (if u = JNull then Inl (ValueError (aryn_url_message cfg)) else Inr u)"

definition aryn_url :: "ArynConfig \<Rightarrow> environ \<Rightarrow> files \<Rightarrow> error + json_value" where
  "aryn_url cfg env fs =
     (case p_aryn_url cfg of
        Some u \<Rightarrow> aryn_url_found cfg (JStr u)
      | None \<Rightarrow>
          if truthy (env ARYN_URL_ENV_VAR) then aryn_url_found cfg (JStr (the (env ARYN_URL_ENV_VAR)))
          else
            (case fs (p_aryn_config_path cfg) of
               None \<Rightarrow> aryn_url_found cfg (JStr DEFAULT_ARYN_URL)
             | Some (Inl e) \<Rightarrow> Inl e
             | Some (Inr data) \<Rightarrow>
                 (case py_contains ''aryn_url'' data of
                    Inl e \<Rightarrow> Inl e
                  | Inr True \<Rightarrow>
                      (case py_getitem data ''aryn_url'' of
                         Inl e \<Rightarrow> Inl e
                       | Inr v \<Rightarrow> aryn_url_found cfg v)
                  | Inr False \<Rightarrow> aryn_url_found cfg JNull)))"

subsection \<open>Client construction\<close>

text \<open>
  The value of a header the client sets: a given string, or the formatted string
  \<^verbatim>\<open>f"Bearer {key}"\<close> for the resolved key.
\<close>

datatype header_value = Plain string | Bearer json_value

record Client =
  base_url :: json_value
  client_headers :: "(string \<times> header_value) list"

text \<open>
  \<^verbatim>\<open>
  def __init__(self, aryn_url="https://api.aryn.ai", aryn_api_key=None, extra_headers=None):
      self.aryn_url = aryn_url
      self.config = ArynConfig(aryn_api_key=aryn_api_key, aryn_url=aryn_url)
      headers = (extra_headers or {}) | {"Authorization": f"Bearer {self.config.api_key()}"}
      self.client = httpx.Client(base_url=self.config.aryn_url(), headers=headers, timeout=90.0)
  \<close>
  The config path is the default one, \<^verbatim>\<open>_DEFAULT_PATH = Path.home() / ".aryn" / "config.yaml"\<close>,
  which depends on the home directory and is the parameter \<open>default_path\<close>. The dict
  union lets the right operand win:
  the \<^verbatim>\<open>Authorization\<close> entry stands first in the association list. Nothing is sent:
  the list of requests sent is returned as it was given.
\<close>

definition Client_init ::
  "string \<Rightarrow> string option \<Rightarrow> (string \<times> string) list option \<Rightarrow> string \<Rightarrow> environ \<Rightarrow> files
     \<Rightarrow> request list \<Rightarrow> (error + Client) \<times> request list" where
  "Client_init url_arg key_arg extra_headers default_path env fs sent =
     (let config = \<lparr>p_aryn_config_path = default_path, p_aryn_api_key = key_arg,
                     p_aryn_url = Some url_arg\<rparr>
      in case api_key config env fs of
           Inl e \<Rightarrow> (Inl e, sent)
         | Inr k \<Rightarrow>
             (case aryn_url config env fs of
                Inl e \<Rightarrow> (Inl e, sent)
              | Inr u \<Rightarrow>
                  (Inr \<lparr>base_url = u,
                        client_headers =
                          (''Authorization'', Bearer k)
                          # map (\<lambda>kv. (fst kv, Plain (snd kv)))
                              (case extra_headers of None \<Rightarrow> [] | Some hs \<Rightarrow> hs)\<rparr>, sent)))"

section \<open>Listings and concrete inputs\<close>

text \<open>
  A listing spread over pages, as a server serves it to a traversal that holds the
  page \<open>held\<close> after the requests \<open>sent\<close>: \<open>pages\<close> are the raw items of the held
  page and of every page after it, in the server's order. Every page but the last
  carries a continuation token, and the transport answers the descriptor re-issued
  with that token by the next page; the last page carries no token.
\<close>

fun page_chain ::
  "transport \<Rightarrow> 'a PaginatedResponse \<Rightarrow> request list \<Rightarrow> response \<Rightarrow> json_value list list \<Rightarrow> bool" where
  "page_chain tr eng sent held [] = False"
| "page_chain tr eng sent held [p] = (page_of (list_key eng) held = Inr (p, None))"
| "page_chain tr eng sent held (p # q # ps) =
     (case page_of (list_key eng) held of
        Inr (items, Some t) \<Rightarrow>
          items = p \<and>
          (case tr sent (with_page_token (request_descriptor eng) t) of
             Inr res' \<Rightarrow>
               status_code res' < 300 \<and>
               page_chain tr eng (sent @ [with_page_token (request_descriptor eng) t]) res' (q # ps)
           | Inl e \<Rightarrow> False)
      | _ \<Rightarrow> False)"

text \<open>A response with the given status, \<^verbatim>\<open>Content-Type\<close> header, body and decoded body.\<close>

definition example_response :: "int \<Rightarrow> string option \<Rightarrow> string \<Rightarrow> json_value option \<Rightarrow> response" where
  "example_response code ct body decoded =
     \<lparr>status_code = code, headers = (\<lambda>k. if k = ''Content-Type'' then ct else None),
      content = body, json = decoded\<rparr>"

text \<open>The body \<^verbatim>\<open>{"x":1}\<close>; the character \<open>0x22\<close> is the double quote.\<close>

definition x1_body :: string where
  "x1_body = ''{'' @ [CHR 0x22] @ ''x'' @ [CHR 0x22] @ '':1}''"

text \<open>A result shape with one integer field \<^verbatim>\<open>x\<close>.\<close>

definition x_shape :: "(string \<times> json_value) list \<Rightarrow> error + int" where
  "x_shape kvs = (case map_of kvs ''x'' of Some (JNum n) \<Rightarrow> Inr n | _ \<Rightarrow> Inl ValidationError)"

text \<open>The handle \<^verbatim>\<open>extract_properties_async\<close> returns for the task id \<^verbatim>\<open>T1\<close>.\<close>

definition example_task :: "int AsyncTask" where
  "example_task =
     \<lparr>task_id = ''T1'', task_method = Some ''POST'', task_path = Some ''/jobs/extract-properties'',
      task_response_type = x_shape\<rparr>"

text \<open>
  A listing of three items on two pages: the first page holds two items and the
  token \<^verbatim>\<open>t1\<close>, the page requested with that token holds the third and a null token.
\<close>

definition example_page :: "json_value list \<Rightarrow> json_value \<Rightarrow> response" where
  "example_page items token =
     example_response 200 (Some ''application/json'') []
       (Some (JObj [(''items'', JList items), (''next_page_token'', token)]))"

definition example_item :: "int \<Rightarrow> json_value" where
  "example_item n = JObj [(''x'', JNum n)]"

definition example_listing :: transport where
  "example_listing sent req =
     (if params req = Some [(''page_token'', Some (PStr ''t1''))]
      then Inr (example_page [example_item 3] JNull)
      else Inr (example_page [example_item 1, example_item 2] (JStr ''t1'')))"

definition example_engine :: "int PaginatedResponse" where
  "example_engine =
     \<lparr>first_response = example_page [example_item 1, example_item 2] (JStr ''t1''),
      item_type = x_shape, list_key = ''items'',
      request_descriptor = list_docsets_request None None None None\<rparr>"

text \<open>A configuration with no explicit key and no explicit URL, and a home directory.\<close>

definition example_config :: ArynConfig where
  "example_config =
     \<lparr>p_aryn_config_path = ''/home/u/.aryn/config.yaml'', p_aryn_api_key = None, p_aryn_url = None\<rparr>"

definition no_environ :: environ where
  "no_environ k = None"

definition no_files :: files where
  "no_files p = None"

text \<open>A config file at the default path of \<^verbatim>\<open>/home/u\<close> that holds a token and no URL.\<close>

definition token_only_files :: files where
  "token_only_files p =
     (if p = ''/home/u/.aryn/config.yaml'' then Some (Inr (JObj [(''aryn_token'', JStr ''k1'')]))
      else None)"

text \<open>
  A config file at the default path of \<^verbatim>\<open>/home/u\<close> that exists and is empty:
  \<^verbatim>\<open>yaml.safe_load\<close> returns \<^verbatim>\<open>None\<close> for it.
\<close>

definition empty_config_file :: files where
  "empty_config_file p = (if p = ''/home/u/.aryn/config.yaml'' then Some (Inr JNull) else None)"

text \<open>
  The polls of the task \<^verbatim>\<open>T1\<close>: the first is answered 202, every later one 200 with
  a JSON body that decodes to an object with \<^verbatim>\<open>x = 1\<close>.
\<close>

definition example_polls :: transport where
  "example_polls sent req =
     (if sent = [] then Inr (example_response 202 None [] None)
      else Inr (example_response 200 (Some ''application/json'') x1_body
                  (Some (JObj [(''x'', JNum 1)]))))"

section \<open>The error classifier\<close>

lemma make_raw_request_Inr:
  "tr sent req = Inr res \<Longrightarrow>
   make_raw_request tr req sent =
     (if 300 \<le> status_code res then Inl (ArynSDKException res) else Inr res, sent @ [req])"
  by (simp add: make_raw_request_def send_def)

lemma make_raw_request_Inl:
  "tr sent req = Inl e \<Longrightarrow> make_raw_request tr req sent = (Inl e, sent @ [req])"
  by (simp add: make_raw_request_def send_def)

lemma make_raw_request_sent: "snd (make_raw_request tr req sent) = sent @ [req]"
  by (simp add: make_raw_request_def send_def split: sum.splits)

text \<open>
  Claim C2. For a response \<open>res\<close> the transport returns for the request \<open>req\<close>:
  when the status code is at least 300, \<^verbatim>\<open>_make_raw_request\<close> raises the API error
  that carries \<open>res\<close>, and so does every operation built on it: envelope construction,
  the first request of a listing, cancel, poll, and the continuation fetch of a
  traversal whose held page carries the token \<open>t\<close>; when the status code is below 300,
  \<^verbatim>\<open>_make_raw_request\<close> returns \<open>res\<close> unchanged. In both cases exactly the request
  \<open>req\<close> was sent.
\<close>

theorem error_classifier_on_every_request:
  assumes "tr sent req = Inr res"
  shows "(300 \<le> status_code res \<longrightarrow>
            make_raw_request tr req sent = (Inl (ArynSDKException res), sent @ [req])
          \<and> make_request tr req response_type sent = (Inl (ArynSDKException res), sent @ [req])
          \<and> make_paginated_request tr req response_type key descriptor sent
              = (Inl (ArynSDKException res), sent @ [req])
          \<and> (req = cancel_request task \<longrightarrow>
                cancel_async_task tr task sent = (Inl (ArynSDKException res), sent @ [req]))
          \<and> (req = result_request task \<longrightarrow>
                get_async_result tr task sent = (Inl (ArynSDKException res), sent @ [req]))
          \<and> (page_of (list_key eng) held = Inr (items, Some t)
               \<and> decode_items (item_type eng) items = Inr vs
               \<and> req = with_page_token (request_descriptor eng) t \<longrightarrow>
                drain tr eng held acc sent = Some (Inl (ArynSDKException res), sent @ [req])))
       \<and> (status_code res < 300 \<longrightarrow> make_raw_request tr req sent = (Inr res, sent @ [req]))"
  using assms
  by (auto simp: make_raw_request_Inr make_request_def make_paginated_request_def
      cancel_async_task_def get_async_result_def get_async_result_internal_def drain.simps)

theorem error_classifier_on_every_request_witness:
  "make_raw_request (\<lambda>sent req. Inr (example_response 404 None [] None))
       (cancel_request (Handle example_task)) []
     = (Inl (ArynSDKException (example_response 404 None [] None)),
        [cancel_request (Handle example_task)])
   \<and> cancel_async_task (\<lambda>sent req. Inr (example_response 404 None [] None))
       (Handle example_task) []
     = (Inl (ArynSDKException (example_response 404 None [] None)),
        [cancel_request (Handle example_task)])
   \<and> make_raw_request (\<lambda>sent req. Inr (example_response 204 None [] None))
       (cancel_request (Handle example_task)) []
     = (Inr (example_response 204 None [] None), [cancel_request (Handle example_task)])"
proof -
  let ?r404 = "example_response 404 None [] None"
  let ?r204 = "example_response 204 None [] None"
  let ?req = "cancel_request (Handle example_task)"
  have c: "300 \<le> status_code ?r404" and d: "status_code ?r204 < 300"
    by (simp_all add: example_response_def)
  note t1 = error_classifier_on_every_request
              [where tr = "\<lambda>sent req. Inr ?r404" and sent = "[]" and req = ?req and res = ?r404
                 and task = "Handle example_task", OF refl, THEN conjunct1, THEN mp, OF c]
  note t2 = error_classifier_on_every_request
              [where tr = "\<lambda>sent req. Inr ?r204" and sent = "[]" and req = ?req and res = ?r204,
               OF refl, THEN conjunct2, THEN mp, OF d]
  have a: "make_raw_request (\<lambda>sent req. Inr ?r404) ?req [] = (Inl (ArynSDKException ?r404), [?req])"
    using t1 [THEN conjunct1] by simp
  have b: "cancel_async_task (\<lambda>sent req. Inr ?r404) (Handle example_task) []
             = (Inl (ArynSDKException ?r404), [?req])"
    using t1 [THEN conjunct2, THEN conjunct2, THEN conjunct2, THEN conjunct1, THEN mp, OF refl] by simp
  have e: "make_raw_request (\<lambda>sent req. Inr ?r204) ?req [] = (Inr ?r204, [?req])"
    using t2 by simp
  from a b e show ?thesis by (intro conjI)
qed

section \<open>Envelope construction\<close>

text \<open>
  Claim C7. For a response \<open>res\<close> with a status code below 300 that
  \<^verbatim>\<open>_make_request\<close> receives for its request: when the body decodes to a JSON
  object that the expected shape accepts as \<open>v\<close>, the result is the envelope pairing
  \<open>res\<close> with \<open>v\<close>; when the body is not JSON, is JSON but no object, or is an object
  the shape rejects, the decode failure is the result. An envelope is returned only
  in the first case: no failure is replaced by a value.
\<close>

theorem make_request_decodes_or_fails:
  assumes "tr sent req = Inr res" and "status_code res < 300"
  shows "(json res = Some (JObj kvs) \<and> response_type kvs = Inr v \<longrightarrow>
            fst (make_request tr req response_type sent) = Inr (Response res v))
       \<and> (json res = None \<longrightarrow> fst (make_request tr req response_type sent) = Inl JSONDecodeError)
       \<and> (json res = Some j \<and> (\<forall>m. j \<noteq> JObj m) \<longrightarrow>
            fst (make_request tr req response_type sent) = Inl TypeError)
       \<and> (json res = Some (JObj kvs) \<and> response_type kvs = Inl e \<longrightarrow>
            fst (make_request tr req response_type sent) = Inl e)
       \<and> ((\<exists>r. fst (make_request tr req response_type sent) = Inr r)
            \<longleftrightarrow> (\<exists>m w. json res = Some (JObj m) \<and> response_type m = Inr w))"
  using assms
  by (auto simp: make_request_def make_raw_request_Inr
      split: option.splits json_value.splits sum.splits)

theorem make_request_decodes_or_fails_witness:
  "fst (make_request
         (\<lambda>sent req. Inr (example_response 200 (Some ''application/json'') x1_body
                            (Some (JObj [(''x'', JNum 1)]))))
         (list_docsets_request None None None None) x_shape [])
     = Inr (Response (example_response 200 (Some ''application/json'') x1_body
                        (Some (JObj [(''x'', JNum 1)]))) 1)
   \<and> fst (make_request
         (\<lambda>sent req. Inr (example_response 200 (Some ''application/json'') ''{}'' (Some (JObj []))))
         (list_docsets_request None None None None) x_shape [])
     = Inl ValidationError
   \<and> fst (make_request
         (\<lambda>sent req. Inr (example_response 200 (Some ''text/html'') ''<html>'' None))
         (list_docsets_request None None None None) x_shape [])
     = Inl JSONDecodeError"
proof -
  let ?ok = "example_response 200 (Some ''application/json'') x1_body (Some (JObj [(''x'', JNum 1)]))"
  let ?empty = "example_response 200 (Some ''application/json'') ''{}'' (Some (JObj []))"
  let ?html = "example_response 200 (Some ''text/html'') ''<html>'' None"
  let ?req = "list_docsets_request None None None None"
  have s: "status_code ?ok < 300" "status_code ?empty < 300" "status_code ?html < 300"
    by (simp_all add: example_response_def)
  have j: "json ?ok = Some (JObj [(''x'', JNum 1)])" "json ?empty = Some (JObj [])" "json ?html = None"
    by (simp_all add: example_response_def)
  have x: "x_shape [(''x'', JNum 1)] = Inr 1" "x_shape [] = Inl ValidationError"
    by (simp_all add: x_shape_def)
  note t1 = make_request_decodes_or_fails
              [where tr = "\<lambda>sent req. Inr ?ok" and sent = "[]" and req = ?req and res = ?ok
                 and response_type = x_shape, OF refl s(1)]
  note t2 = make_request_decodes_or_fails
              [where tr = "\<lambda>sent req. Inr ?empty" and sent = "[]" and req = ?req and res = ?empty
                 and response_type = x_shape, OF refl s(2)]
  note t3 = make_request_decodes_or_fails
              [where tr = "\<lambda>sent req. Inr ?html" and sent = "[]" and req = ?req and res = ?html
                 and response_type = x_shape, OF refl s(3)]
  have a: "fst (make_request (\<lambda>sent req. Inr ?ok) ?req x_shape []) = Inr (Response ?ok 1)"
    using t1 [THEN conjunct1, THEN mp, OF conjI, OF j(1) x(1)] by simp
  have b: "fst (make_request (\<lambda>sent req. Inr ?empty) ?req x_shape []) = Inl ValidationError"
    using t2 [THEN conjunct2, THEN conjunct2, THEN conjunct2, THEN conjunct1, THEN mp, OF conjI,
              OF j(2) x(2)] by simp
  have c: "fst (make_request (\<lambda>sent req. Inr ?html) ?req x_shape []) = Inl JSONDecodeError"
    using t3 [THEN conjunct2, THEN conjunct1, THEN mp, OF j(3)] by simp
  from a b c show ?thesis by (intro conjI)
qed

section \<open>Polling a task\<close>

text \<open>
  Claim C1, as the code has it. For a response \<open>res\<close> the transport returns for the
  poll request of a task: status 202 gives the pending outcome, the acknowledgement
  envelope of \<open>res\<close> with no decoded body; status 200 with a \<^verbatim>\<open>Content-Type\<close>
  header whose lower-cased value is exactly \<^verbatim>\<open>application/json\<close> gives the envelope
  pairing \<open>res\<close> with the JSON-decoded body when the body decodes, and raises the
  decode error when it does not; status 200 with a \<^verbatim>\<open>Content-Type\<close> header of any
  other value gives the envelope pairing \<open>res\<close> with the raw bytes; every other
  status code, whether the error classifier raises it (300 and above) or not, raises
  the API error that carries \<open>res\<close> and is never the pending outcome. The outcomes
  are exact: pending only for 202, the JSON envelope only for 200 with that header
  value and a body that decodes, the raw envelope only for 200 with another header
  value.
\<close>

theorem get_async_result_outcome:
  assumes "tr sent (result_request task) = Inr res"
  shows "(status_code res = 202 \<longrightarrow>
            fst (get_async_result tr task sent) = Inr (Pending (SimpleResponse res)))
       \<and> (status_code res = 200 \<and> headers res ''Content-Type'' = Some ct
            \<and> str_lower ct = ''application/json'' \<and> json res = Some v \<longrightarrow>
            fst (get_async_result tr task sent) = Inr (Ready (Response res (JsonContent v))))
       \<and> (status_code res = 200 \<and> headers res ''Content-Type'' = Some ct
            \<and> str_lower ct \<noteq> ''application/json'' \<longrightarrow>
            fst (get_async_result tr task sent)
              = Inr (Ready (Response res (RawContent (content res)))))
       \<and> (status_code res \<noteq> 200 \<and> status_code res \<noteq> 202 \<longrightarrow>
            fst (get_async_result tr task sent) = Inl (ArynSDKException res))
       \<and> ((\<exists>s. fst (get_async_result tr task sent) = Inr (Pending s)) \<longleftrightarrow> status_code res = 202)
       \<and> ((\<exists>w. fst (get_async_result tr task sent) = Inr (Ready (Response res (JsonContent w))))
            \<longleftrightarrow> status_code res = 200
                \<and> (\<exists>c. headers res ''Content-Type'' = Some c \<and> str_lower c = ''application/json'')
                \<and> json res \<noteq> None)
       \<and> ((\<exists>b. fst (get_async_result tr task sent) = Inr (Ready (Response res (RawContent b))))
            \<longleftrightarrow> status_code res = 200
                \<and> (\<exists>c. headers res ''Content-Type'' = Some c \<and> str_lower c \<noteq> ''application/json''))
       \<and> (status_code res = 200 \<and> headers res ''Content-Type'' = Some ct
            \<and> str_lower ct = ''application/json'' \<and> json res = None \<longrightarrow>
            fst (get_async_result tr task sent) = Inl JSONDecodeError)"
  using assms
  by (auto simp: get_async_result_def get_async_result_internal_def make_raw_request_Inr
      split: option.splits if_splits)

theorem get_async_result_outcome_witness:
  "fst (get_async_result example_polls (BareId ''T1'' :: int task_arg) [])
     = Inr (Pending (SimpleResponse (example_response 202 None [] None)))
   \<and> fst (get_async_result example_polls (BareId ''T1'' :: int task_arg)
            [result_request (BareId ''T1'' :: int task_arg)])
     = Inr (Ready (Response (example_response 200 (Some ''application/json'') x1_body
                               (Some (JObj [(''x'', JNum 1)])))
                            (JsonContent (JObj [(''x'', JNum 1)]))))
   \<and> fst (get_async_result (\<lambda>sent req. Inr (example_response 200 (Some ''text/csv'') ''a,b'' None))
            (Handle example_task) [])
     = Inr (Ready (Response (example_response 200 (Some ''text/csv'') ''a,b'' None)
                            (RawContent ''a,b'')))
   \<and> fst (get_async_result (\<lambda>sent req. Inr (example_response 204 None [] None))
            (Handle example_task) [])
     = Inl (ArynSDKException (example_response 204 None [] None))"
proof -
  let ?t = "BareId ''T1'' :: int task_arg"
  let ?r202 = "example_response 202 None [] None"
  let ?r200 = "example_response 200 (Some ''application/json'') x1_body (Some (JObj [(''x'', JNum 1)]))"
  let ?csv = "example_response 200 (Some ''text/csv'') ''a,b'' None"
  let ?r204 = "example_response 204 None [] None"
  have p1: "example_polls [] (result_request ?t) = Inr ?r202"
    and p2: "example_polls [result_request ?t] (result_request ?t) = Inr ?r200"
    by (simp_all add: example_polls_def)
  have h1: "status_code ?r202 = 202" by (simp add: example_response_def)
  have h2: "status_code ?r200 = 200 \<and> headers ?r200 ''Content-Type'' = Some ''application/json''
            \<and> str_lower ''application/json'' = ''application/json''
            \<and> json ?r200 = Some (JObj [(''x'', JNum 1)])"
    by (simp add: example_response_def str_lower_def lower_char_def)
  have h3: "status_code ?csv = 200 \<and> headers ?csv ''Content-Type'' = Some ''text/csv''
            \<and> str_lower ''text/csv'' \<noteq> ''application/json''"
    by (simp add: example_response_def str_lower_def lower_char_def)
  have h4: "status_code ?r204 \<noteq> 200 \<and> status_code ?r204 \<noteq> 202"
    by (simp add: example_response_def)
  have c: "content ?csv = ''a,b''" by (simp add: example_response_def)
  note t1 = get_async_result_outcome [where tr = example_polls and sent = "[]" and task = ?t, OF p1]
  note t2 = get_async_result_outcome
              [where tr = example_polls and sent = "[result_request ?t]" and task = ?t, OF p2]
  note t3 = get_async_result_outcome
              [where tr = "\<lambda>sent req. Inr ?csv" and sent = "[]" and task = "Handle example_task"
                 and res = ?csv, OF refl]
  note t4 = get_async_result_outcome
              [where tr = "\<lambda>sent req. Inr ?r204" and sent = "[]" and task = "Handle example_task"
                 and res = ?r204, OF refl]
  note a = t1 [THEN conjunct1, THEN mp, OF h1]
  note b = t2 [THEN conjunct2, THEN conjunct1, THEN mp, OF h2]
  note d = t3 [THEN conjunct2, THEN conjunct2, THEN conjunct1, THEN mp, OF h3]
  note e = t4 [THEN conjunct2, THEN conjunct2, THEN conjunct2, THEN conjunct1, THEN mp, OF h4]
  from a b d e c show ?thesis by simp
qed

text \<open>
  The claim as stated fails on a response whose content type is JSON with a
  parameter: for status 200 and \<^verbatim>\<open>Content-Type: application/json; charset=utf-8\<close>
  the comparison with \<^verbatim>\<open>application/json\<close> is false, and the outcome pairs the
  response with the raw bytes, not with the decoded body.
\<close>

theorem get_async_result_json_with_charset_counterexample:
  "fst (get_async_result
         (\<lambda>sent req. Inr (example_response 200 (Some ''application/json; charset=utf-8'') x1_body
                            (Some (JObj [(''x'', JNum 1)]))))
         (BareId ''T1'' :: int task_arg) [])
     = Inr (Ready (Response (example_response 200 (Some ''application/json; charset=utf-8'') x1_body
                               (Some (JObj [(''x'', JNum 1)])))
                            (RawContent x1_body)))"
  by (simp add: get_async_result_def get_async_result_internal_def make_raw_request_def send_def
      example_response_def str_lower_def lower_char_def)

text \<open>
  Claim C9. For a poll response with status 200: when the response has no
  \<^verbatim>\<open>Content-Type\<close> header, \<^verbatim>\<open>get_async_result\<close> raises \<^verbatim>\<open>AttributeError\<close>
  (\<^verbatim>\<open>.lower()\<close> on \<^verbatim>\<open>None\<close>), which is none of the three task outcomes and not the
  API error; and it raises \<^verbatim>\<open>AttributeError\<close> only then, so the 200 branch returns
  an outcome or a decode error exactly when the header is present.
\<close>

theorem get_async_result_without_content_type:
  assumes "tr sent (result_request task) = Inr res" and "status_code res = 200"
  shows "(headers res ''Content-Type'' = None \<longrightarrow>
            get_async_result tr task sent = (Inl AttributeError, sent @ [result_request task]))
       \<and> (fst (get_async_result tr task sent) = Inl AttributeError
            \<longleftrightarrow> headers res ''Content-Type'' = None)"
  using assms
  by (auto simp: get_async_result_def get_async_result_internal_def make_raw_request_Inr
      split: option.splits if_splits)

theorem get_async_result_without_content_type_witness:
  "get_async_result (\<lambda>sent req. Inr (example_response 200 None ''a,b'' None))
      (Handle example_task) []
     = (Inl AttributeError, [result_request (Handle example_task)])"
proof -
  let ?r = "example_response 200 None ''a,b'' None"
  have s: "status_code ?r = 200" and h: "headers ?r ''Content-Type'' = None"
    by (simp_all add: example_response_def)
  from get_async_result_without_content_type
         [where tr = "\<lambda>sent req. Inr ?r" and sent = "[]" and task = "Handle example_task"
            and res = ?r, OF refl s, THEN conjunct1, THEN mp, OF h]
  show ?thesis by simp
qed

section \<open>Addressing and cancelling a task\<close>

text \<open>
  The requests of poll and cancel, as \<^verbatim>\<open>build_request\<close> receives them. Given a
  handle, the request goes to the fixed path followed by the handle's task id, and the
  values of \<^verbatim>\<open>method_filter\<close> and \<^verbatim>\<open>path_filter\<close> are the handle's submission
  method and path. Given a bare task id, the request goes to the fixed path followed
  by that id and both values are \<^verbatim>\<open>None\<close>. These requests are the ones poll and
  cancel send.
\<close>

lemma task_addressing_filters:
  "result_request (Handle h)
     = \<lparr>http_method = ''GET'', url = ''/v1/async/result/'' @ task_id h,
        params = Some [(''method_filter'', map_option PStr (task_method h)),
                       (''path_filter'', map_option PStr (task_path h))],
        json_body = None, req_headers = None\<rparr>
   \<and> cancel_request (Handle h)
     = \<lparr>http_method = ''POST'', url = ''/v1/async/cancel/'' @ task_id h,
        params = Some [(''method_filter'', map_option PStr (task_method h)),
                       (''path_filter'', map_option PStr (task_path h))],
        json_body = None, req_headers = None\<rparr>
   \<and> result_request (BareId s :: 'a task_arg)
     = \<lparr>http_method = ''GET'', url = ''/v1/async/result/'' @ s,
        params = Some [(''method_filter'', None), (''path_filter'', None)],
        json_body = None, req_headers = None\<rparr>
   \<and> cancel_request (BareId s :: 'a task_arg)
     = \<lparr>http_method = ''POST'', url = ''/v1/async/cancel/'' @ s,
        params = Some [(''method_filter'', None), (''path_filter'', None)],
        json_body = None, req_headers = None\<rparr>
   \<and> snd (get_async_result tr task sent) = sent @ [result_request task]
   \<and> snd (get_async_result_internal tr task sent) = sent @ [result_request task]
   \<and> snd (cancel_async_task tr task sent) = sent @ [cancel_request task]"
proof -
  have a: "snd (get_async_result_internal tr task sent) = sent @ [result_request task]"
    by (simp add: get_async_result_internal_def make_raw_request_sent)
  have b: "snd (get_async_result tr task sent) = sent @ [result_request task]"
    using a
    by (cases "get_async_result_internal tr task sent")
       (auto simp: get_async_result_def split: sum.splits option.splits)
  have c: "snd (cancel_async_task tr task sent) = sent @ [cancel_request task]"
    using make_raw_request_sent [of tr "cancel_request task" sent]
    by (cases "make_raw_request tr (cancel_request task) sent")
       (auto simp: cancel_async_task_def split: sum.splits)
  have e1: "result_request (Handle h)
     = \<lparr>http_method = ''GET'', url = ''/v1/async/result/'' @ task_id h,
        params = Some [(''method_filter'', map_option PStr (task_method h)),
                       (''path_filter'', map_option PStr (task_path h))],
        json_body = None, req_headers = None\<rparr>"
    by (simp add: result_request_def filter_params_def split: option.splits)
  have e2: "cancel_request (Handle h)
     = \<lparr>http_method = ''POST'', url = ''/v1/async/cancel/'' @ task_id h,
        params = Some [(''method_filter'', map_option PStr (task_method h)),
                       (''path_filter'', map_option PStr (task_path h))],
        json_body = None, req_headers = None\<rparr>"
    by (simp add: cancel_request_def filter_params_def split: option.splits)
  have e3: "result_request (BareId s :: 'a task_arg)
     = \<lparr>http_method = ''GET'', url = ''/v1/async/result/'' @ s,
        params = Some [(''method_filter'', None), (''path_filter'', None)],
        json_body = None, req_headers = None\<rparr>"
    by (simp add: result_request_def filter_params_def)
  have e4: "cancel_request (BareId s :: 'a task_arg)
     = \<lparr>http_method = ''POST'', url = ''/v1/async/cancel/'' @ s,
        params = Some [(''method_filter'', None), (''path_filter'', None)],
        json_body = None, req_headers = None\<rparr>"
    by (simp add: cancel_request_def filter_params_def)
  from e1 e2 e3 e4 b a c show ?thesis by (intro conjI)
qed

text \<open>
  Claim C4 at a bare task id. Poll and cancel pass both filter parameters to
  \<^verbatim>\<open>build_request\<close>, each with the value \<^verbatim>\<open>None\<close>: the keys
  \<^verbatim>\<open>method_filter\<close> and \<^verbatim>\<open>path_filter\<close> are part of the request that is sent and
  are not left out, where the claim has no filters sent. The listing operations of
  the same client add a parameter only when its value is not \<^verbatim>\<open>None\<close>, and pass no
  parameters at all when none is given.
\<close>

theorem bare_id_filters_are_passed:
  "params (result_request (BareId ''T1'' :: int task_arg))
     = Some [(''method_filter'', None), (''path_filter'', None)]
   \<and> params (cancel_request (BareId ''T1'' :: int task_arg))
     = Some [(''method_filter'', None), (''path_filter'', None)]
   \<and> snd (get_async_result example_polls (BareId ''T1'' :: int task_arg) [])
     = [\<lparr>http_method = ''GET'', url = ''/v1/async/result/T1'',
         params = Some [(''method_filter'', None), (''path_filter'', None)],
         json_body = None, req_headers = None\<rparr>]
   \<and> snd (cancel_async_task example_polls (BareId ''T1'' :: int task_arg) [])
     = [\<lparr>http_method = ''POST'', url = ''/v1/async/cancel/T1'',
         params = Some [(''method_filter'', None), (''path_filter'', None)],
         json_body = None, req_headers = None\<rparr>]
   \<and> params (list_docsets_request None None None None) = None
   \<and> params (list_docs_request ''D1'' None None None) = None"
  by (simp add: result_request_def cancel_request_def filter_params_def get_async_result_def
      get_async_result_internal_def cancel_async_task_def make_raw_request_def send_def
      example_polls_def example_response_def list_docsets_request_def list_docs_request_def
      or_None_def opt_param_def)

text \<open>
  Claim C8. For every addressing argument, \<^verbatim>\<open>cancel_async_task\<close> sends exactly one
  request, a POST to \<^verbatim>\<open>/v1/async/cancel/\<close> followed by the task id, with the
  \<^verbatim>\<open>method_filter\<close> and \<^verbatim>\<open>path_filter\<close> parameters of the argument. For a response
  \<open>res\<close> with a status code below 300 it returns the acknowledgement envelope of
  \<open>res\<close>, whatever the body of \<open>res\<close> is; the result does not depend on the result
  type the handle declares.
\<close>

theorem cancel_async_task_acknowledgement:
  assumes "tr sent (cancel_request task) = Inr res" and "status_code res < 300"
  shows "cancel_async_task tr task sent = (Inr (SimpleResponse res), sent @ [cancel_request task])
       \<and> http_method (cancel_request task) = ''POST''
       \<and> url (cancel_request task)
           = ''/v1/async/cancel/'' @ (case task of Handle h \<Rightarrow> task_id h | BareId s \<Rightarrow> s)
       \<and> params (cancel_request task)
           = Some [(''method_filter'',
                     (case task of Handle h \<Rightarrow> map_option PStr (task_method h) | BareId s \<Rightarrow> None)),
                   (''path_filter'',
                     (case task of Handle h \<Rightarrow> map_option PStr (task_path h) | BareId s \<Rightarrow> None))]
       \<and> cancel_async_task tr' (Handle (k\<lparr>task_response_type := d\<rparr>)) sent'
           = cancel_async_task tr' (Handle k) sent'"
proof -
  have a: "cancel_async_task tr task sent = (Inr (SimpleResponse res), sent @ [cancel_request task])"
    using assms by (simp add: cancel_async_task_def make_raw_request_Inr)
  have b: "cancel_request (Handle (k\<lparr>task_response_type := d\<rparr>)) = cancel_request (Handle k)"
    by (simp add: cancel_request_def)
  have c: "cancel_async_task tr' (Handle (k\<lparr>task_response_type := d\<rparr>)) sent'
             = cancel_async_task tr' (Handle k) sent'"
    by (simp add: cancel_async_task_def b)
  show ?thesis
    using a c
    by (cases task) (simp_all add: cancel_request_def filter_params_def split: option.splits)
qed

theorem cancel_async_task_acknowledgement_witness:
  "cancel_async_task (\<lambda>sent req. Inr (example_response 200 (Some ''application/json'') x1_body
                                        (Some (JObj [(''x'', JNum 1)]))))
      (Handle example_task) []
     = (Inr (SimpleResponse (example_response 200 (Some ''application/json'') x1_body
                               (Some (JObj [(''x'', JNum 1)])))),
        [\<lparr>http_method = ''POST'', url = ''/v1/async/cancel/T1'',
          params = Some [(''method_filter'', Some (PStr ''POST'')),
                         (''path_filter'', Some (PStr ''/jobs/extract-properties''))],
          json_body = None, req_headers = None\<rparr>])"
proof -
  let ?r = "example_response 200 (Some ''application/json'') x1_body (Some (JObj [(''x'', JNum 1)]))"
  have s: "status_code ?r < 300" by (simp add: example_response_def)
  have q: "cancel_request (Handle example_task)
             = \<lparr>http_method = ''POST'', url = ''/v1/async/cancel/T1'',
                params = Some [(''method_filter'', Some (PStr ''POST'')),
                               (''path_filter'', Some (PStr ''/jobs/extract-properties''))],
                json_body = None, req_headers = None\<rparr>"
    by (simp add: cancel_request_def filter_params_def example_task_def)
  from cancel_async_task_acknowledgement
         [where tr = "\<lambda>sent req. Inr ?r" and sent = "[]" and task = "Handle example_task"
            and res = ?r, OF refl s, THEN conjunct1]
  show ?thesis by (simp add: q)
qed

section \<open>Resolving the API key and the base URL\<close>

lemma str_contains_prefix: "str_contains k (k @ ys)"
proof (cases "k @ ys")
  case Nil
  then show ?thesis by simp
next
  case (Cons a list)
  have "take (length k) (k @ ys) = k" by simp
  then show ?thesis unfolding Cons by simp
qed

lemma str_contains_append: "str_contains k (xs @ k @ ys)"
  by (induction xs) (auto simp: str_contains_prefix)

lemma api_key_message_names_sources:
  "str_contains ARYN_API_KEY_ENV_VAR (api_key_message cfg)
   \<and> str_contains (p_aryn_config_path cfg) (api_key_message cfg)
   \<and> str_contains ''aryn_api_key parameter'' (api_key_message cfg)"
proof -
  let ?a = "''Could not find an aryn api key. Checked the ''"
  let ?b = "'' env var, the ''"
  let ?c = "'' config file, and the ''"
  have m: "api_key_message cfg
             = ?a @ ARYN_API_KEY_ENV_VAR @ ?b @ p_aryn_config_path cfg @ ?c @ ''aryn_api_key parameter''"
    by (simp add: api_key_message_def)
  have 1: "str_contains ARYN_API_KEY_ENV_VAR (api_key_message cfg)"
    unfolding m by (rule str_contains_append)
  have 2: "str_contains (p_aryn_config_path cfg) (api_key_message cfg)"
    using str_contains_append [of "p_aryn_config_path cfg" "?a @ ARYN_API_KEY_ENV_VAR @ ?b"
                                  "?c @ ''aryn_api_key parameter''"]
    unfolding m by simp
  have 3: "str_contains ''aryn_api_key parameter'' (api_key_message cfg)"
    using str_contains_append [of "''aryn_api_key parameter''"
                                  "?a @ ARYN_API_KEY_ENV_VAR @ ?b @ p_aryn_config_path cfg @ ?c" "[]"]
    unfolding m by simp
  from 1 2 3 show ?thesis by (intro conjI)
qed

lemma api_key_param: "p_aryn_api_key cfg = Some k \<Longrightarrow> api_key cfg env fs = Inr (JStr k)"
  by (simp add: api_key_def)

lemma api_key_env:
  "p_aryn_api_key cfg = None \<Longrightarrow> env ARYN_API_KEY_ENV_VAR = Some v \<Longrightarrow> v \<noteq> [] \<Longrightarrow>
   api_key cfg env fs = Inr (JStr v)"
  by (simp add: api_key_def truthy_def)

lemma api_key_file:
  "p_aryn_api_key cfg = None \<Longrightarrow> \<not> truthy (env ARYN_API_KEY_ENV_VAR) \<Longrightarrow>
   fs (p_aryn_config_path cfg) = Some (Inr (JObj kvs)) \<Longrightarrow> map_of kvs ''aryn_token'' = Some t \<Longrightarrow>
   api_key cfg env fs = Inr t"
  by (simp add: api_key_def)

lemma api_key_none:
  "p_aryn_api_key cfg = None \<Longrightarrow> \<not> truthy (env ARYN_API_KEY_ENV_VAR) \<Longrightarrow>
   fs (p_aryn_config_path cfg) = None
     \<or> (\<exists>kvs. fs (p_aryn_config_path cfg) = Some (Inr (JObj kvs)) \<and> map_of kvs ''aryn_token'' = None) \<Longrightarrow>
   api_key cfg env fs = Inl (ValueError (api_key_message cfg))"
  by (auto simp: api_key_def)

text \<open>
  The resolution order of \<^verbatim>\<open>api_key\<close>. It returns the explicit parameter when it
  is given; otherwise the value of \<^verbatim>\<open>ARYN_API_KEY\<close> when the variable is set to a
  non-empty string; otherwise the \<^verbatim>\<open>aryn_token\<close> entry of the config file when the
  file holds a mapping with that entry. When the parameter is \<^verbatim>\<open>None\<close>, the variable
  yields nothing, and the config file is absent or holds a mapping without the entry,
  it raises the configuration error whose message names the environment variable,
  the config file and the parameter; constructing a client then fails with that
  error, and no request is issued.
\<close>

lemma api_key_resolution:
  "(p_aryn_api_key cfg = Some k \<longrightarrow> api_key cfg env fs = Inr (JStr k))
   \<and> (p_aryn_api_key cfg = None \<and> env ARYN_API_KEY_ENV_VAR = Some v \<and> v \<noteq> [] \<longrightarrow>
        api_key cfg env fs = Inr (JStr v))
   \<and> (p_aryn_api_key cfg = None \<and> \<not> truthy (env ARYN_API_KEY_ENV_VAR)
        \<and> fs (p_aryn_config_path cfg) = Some (Inr (JObj kvs)) \<and> map_of kvs ''aryn_token'' = Some t \<longrightarrow>
        api_key cfg env fs = Inr t)
   \<and> (p_aryn_api_key cfg = None \<and> \<not> truthy (env ARYN_API_KEY_ENV_VAR)
        \<and> (fs (p_aryn_config_path cfg) = None
            \<or> (\<exists>m. fs (p_aryn_config_path cfg) = Some (Inr (JObj m)) \<and> map_of m ''aryn_token'' = None)) \<longrightarrow>
        api_key cfg env fs = Inl (ValueError (api_key_message cfg)))
   \<and> str_contains ARYN_API_KEY_ENV_VAR (api_key_message cfg)
   \<and> str_contains (p_aryn_config_path cfg) (api_key_message cfg)
   \<and> str_contains ''aryn_api_key parameter'' (api_key_message cfg)
   \<and> (\<not> truthy (env ARYN_API_KEY_ENV_VAR)
        \<and> (fs (default_path) = None
            \<or> (\<exists>m. fs (default_path) = Some (Inr (JObj m)) \<and> map_of m ''aryn_token'' = None)) \<longrightarrow>
        Client_init url_arg None extra_headers default_path env fs sent
          = (Inl (ValueError (api_key_message
               \<lparr>p_aryn_config_path = default_path, p_aryn_api_key = None,
                p_aryn_url = Some url_arg\<rparr>)), sent))"
proof -
  let ?c = "\<lparr>p_aryn_config_path = default_path, p_aryn_api_key = None, p_aryn_url = Some url_arg\<rparr>"
  have init: "\<not> truthy (env ARYN_API_KEY_ENV_VAR)
        \<and> (fs (default_path) = None
            \<or> (\<exists>m. fs (default_path) = Some (Inr (JObj m)) \<and> map_of m ''aryn_token'' = None)) \<longrightarrow>
        Client_init url_arg None extra_headers default_path env fs sent
          = (Inl (ValueError (api_key_message ?c)), sent)"
  proof
    assume h: "\<not> truthy (env ARYN_API_KEY_ENV_VAR)
        \<and> (fs (default_path) = None
            \<or> (\<exists>m. fs (default_path) = Some (Inr (JObj m)) \<and> map_of m ''aryn_token'' = None))"
    have "api_key ?c env fs = Inl (ValueError (api_key_message ?c))"
      using h by (intro api_key_none) simp_all
    then show "Client_init url_arg None extra_headers default_path env fs sent
                 = (Inl (ValueError (api_key_message ?c)), sent)"
      by (simp add: Client_init_def)
  qed
  show ?thesis
    using api_key_param [of cfg k env fs] api_key_env [of cfg env v fs]
      api_key_file [of cfg env fs kvs t] api_key_none [of cfg env fs]
      api_key_message_names_sources [of cfg] init
    by blast
qed

lemma api_key_resolution_example:
  "Client_init ''https://api.aryn.ai'' None None ''/home/u/.aryn/config.yaml'' no_environ no_files []
     = (Inl (ValueError (''Could not find an aryn api key. Checked the ARYN_API_KEY env var, ''
                          @ ''the /home/u/.aryn/config.yaml config file, and the aryn_api_key parameter'')),
        [])
   \<and> api_key example_config no_environ token_only_files = Inr (JStr ''k1'')
   \<and> api_key example_config (\<lambda>k. if k = ''ARYN_API_KEY'' then Some ''k2'' else None) token_only_files
       = Inr (JStr ''k2'')
   \<and> api_key (example_config\<lparr>p_aryn_api_key := Some ''k3''\<rparr>)
         (\<lambda>k. if k = ''ARYN_API_KEY'' then Some ''k2'' else None) token_only_files
       = Inr (JStr ''k3'')"
proof -
  let ?env = "\<lambda>k. if k = ''ARYN_API_KEY'' then Some ''k2'' else None"
  have h: "\<not> truthy (no_environ ARYN_API_KEY_ENV_VAR)
           \<and> (no_files (''/home/u/.aryn/config.yaml'') = None
               \<or> (\<exists>m. no_files (''/home/u/.aryn/config.yaml'') = Some (Inr (JObj m))
                       \<and> map_of m ''aryn_token'' = None))"
    by (simp add: truthy_def no_environ_def no_files_def)
  have m: "api_key_message \<lparr>p_aryn_config_path = ''/home/u/.aryn/config.yaml'', p_aryn_api_key = None,
                             p_aryn_url = Some ''https://api.aryn.ai''\<rparr>
             = ''Could not find an aryn api key. Checked the ARYN_API_KEY env var, ''
               @ ''the /home/u/.aryn/config.yaml config file, and the aryn_api_key parameter''"
    by (simp add: api_key_message_def ARYN_API_KEY_ENV_VAR_def)
  have f: "p_aryn_api_key example_config = None \<and> \<not> truthy (no_environ ARYN_API_KEY_ENV_VAR)
           \<and> token_only_files (p_aryn_config_path example_config)
               = Some (Inr (JObj [(''aryn_token'', JStr ''k1'')]))
           \<and> map_of [(''aryn_token'', JStr ''k1'')] ''aryn_token'' = Some (JStr ''k1'')"
    by (simp add: example_config_def truthy_def no_environ_def token_only_files_def)
  have e: "p_aryn_api_key example_config = None \<and> ?env ARYN_API_KEY_ENV_VAR = Some ''k2'' \<and> ''k2'' \<noteq> []"
    by (simp add: example_config_def ARYN_API_KEY_ENV_VAR_def)
  have p: "p_aryn_api_key (example_config\<lparr>p_aryn_api_key := Some ''k3''\<rparr>) = Some ''k3''"
    by simp
  note a = api_key_resolution
             [where env = no_environ and fs = no_files and default_path = "''/home/u/.aryn/config.yaml''"
                and url_arg = "''https://api.aryn.ai''" and extra_headers = None and sent = "[]",
              THEN conjunct2, THEN conjunct2, THEN conjunct2, THEN conjunct2, THEN conjunct2,
              THEN conjunct2, THEN conjunct2, THEN mp, OF h]
  note b = api_key_resolution
             [where cfg = example_config and env = no_environ and fs = token_only_files,
              THEN conjunct2, THEN conjunct2, THEN conjunct1, THEN mp, OF f]
  note c = api_key_resolution
             [where cfg = example_config and env = ?env and fs = token_only_files,
              THEN conjunct2, THEN conjunct1, THEN mp, OF e]
  note d = api_key_resolution
             [where cfg = "example_config\<lparr>p_aryn_api_key := Some ''k3''\<rparr>" and env = ?env
                and fs = token_only_files, THEN conjunct1, THEN mp, OF p]
  from a m have a': "Client_init ''https://api.aryn.ai'' None None ''/home/u/.aryn/config.yaml'' no_environ no_files []
     = (Inl (ValueError (''Could not find an aryn api key. Checked the ARYN_API_KEY env var, ''
                          @ ''the /home/u/.aryn/config.yaml config file, and the aryn_api_key parameter'')),
        [])"
    by (simp only:)
  from a' b c d show ?thesis by (intro conjI)
qed

text \<open>
  Claim C5 at a config file that exists and is empty. The parameter is \<^verbatim>\<open>None\<close>,
  \<^verbatim>\<open>ARYN_API_KEY\<close> is unset and the file holds no \<^verbatim>\<open>aryn_token\<close>, so none of the
  three sources yields a key. The file loads as \<^verbatim>\<open>None\<close>, the membership test
  \<^verbatim>\<open>"aryn_token" in data\<close> raises \<^verbatim>\<open>TypeError\<close>, and the configuration error that
  names the three sources is not reached: \<^verbatim>\<open>api_key\<close> and the construction of the
  client fail with \<^verbatim>\<open>TypeError\<close>, before any request is sent.
\<close>

theorem api_key_empty_config_file:
  "p_aryn_api_key example_config = None
   \<and> no_environ ARYN_API_KEY_ENV_VAR = None
   \<and> empty_config_file (p_aryn_config_path example_config) = Some (Inr JNull)
   \<and> api_key example_config no_environ empty_config_file = Inl TypeError
   \<and> Client_init ''https://api.aryn.ai'' None None ''/home/u/.aryn/config.yaml'' no_environ
         empty_config_file []
       = (Inl TypeError, [])"
  by (simp add: api_key_def Client_init_def truthy_def example_config_def no_environ_def
      empty_config_file_def)

text \<open>
  Claim C10. An empty string is treated differently by the sources of the API key.
  The explicit parameter is returned whenever it is not \<^verbatim>\<open>None\<close>, so an empty
  parameter is returned as the key. With the parameter \<^verbatim>\<open>None\<close> and
  \<^verbatim>\<open>ARYN_API_KEY\<close> set to the empty string, the variable is skipped: the result is
  the one obtained with the variable unset, so resolution goes on to the config file
  and returns its \<^verbatim>\<open>aryn_token\<close> entry when it has one.
\<close>

theorem api_key_empty_string:
  "api_key (cfg\<lparr>p_aryn_api_key := Some []\<rparr>) env fs = Inr (JStr [])
   \<and> (p_aryn_api_key cfg = None \<and> env ARYN_API_KEY_ENV_VAR = Some [] \<longrightarrow>
        api_key cfg env fs = api_key cfg (env(ARYN_API_KEY_ENV_VAR := None)) fs)
   \<and> (p_aryn_api_key cfg = None \<and> env ARYN_API_KEY_ENV_VAR = Some []
        \<and> fs (p_aryn_config_path cfg) = Some (Inr (JObj kvs)) \<and> map_of kvs ''aryn_token'' = Some t \<longrightarrow>
        api_key cfg env fs = Inr t)"
  by (simp add: api_key_def truthy_def)

theorem api_key_empty_string_witness:
  "api_key example_config (\<lambda>k. if k = ''ARYN_API_KEY'' then Some [] else None) token_only_files
     = Inr (JStr ''k1'')
   \<and> api_key (example_config\<lparr>p_aryn_api_key := Some []\<rparr>)
        (\<lambda>k. if k = ''ARYN_API_KEY'' then Some [] else None) token_only_files
     = Inr (JStr [])"
proof -
  let ?env = "\<lambda>k. if k = ''ARYN_API_KEY'' then Some [] else None"
  have h: "p_aryn_api_key example_config = None \<and> ?env ARYN_API_KEY_ENV_VAR = Some []
           \<and> token_only_files (p_aryn_config_path example_config)
               = Some (Inr (JObj [(''aryn_token'', JStr ''k1'')]))
           \<and> map_of [(''aryn_token'', JStr ''k1'')] ''aryn_token'' = Some (JStr ''k1'')"
    by (simp add: example_config_def ARYN_API_KEY_ENV_VAR_def token_only_files_def)
  note a = api_key_empty_string
             [where cfg = example_config and env = ?env and fs = token_only_files,
              THEN conjunct2, THEN conjunct2, THEN mp, OF h]
  note b = api_key_empty_string
             [where cfg = example_config and env = ?env and fs = token_only_files, THEN conjunct1]
  from a b show ?thesis by (intro conjI)
qed

text \<open>
  Claim C6, as the code has it. \<^verbatim>\<open>aryn_url\<close> checks the sources in the order of the
  API key: it returns the explicit parameter when it is given; otherwise the value
  of \<^verbatim>\<open>ARYN_API_URL\<close> when the variable is set to a non-empty string; otherwise,
  when the config file exists and holds a mapping, its \<^verbatim>\<open>aryn_url\<close> entry if that
  is present and not null. It returns the default \<^verbatim>\<open>https://api.aryn.ai\<close> when the
  parameter is \<^verbatim>\<open>None\<close>, the variable yields nothing and the config file does not
  exist. When the config file exists and holds a mapping without an \<^verbatim>\<open>aryn_url\<close>
  entry, or with a null one, it raises the configuration error and does not fall
  back on the default.
\<close>

theorem aryn_url_resolution:
  "(p_aryn_url cfg = Some u \<longrightarrow> aryn_url cfg env fs = Inr (JStr u))
   \<and> (p_aryn_url cfg = None \<and> env ARYN_URL_ENV_VAR = Some v \<and> v \<noteq> [] \<longrightarrow>
        aryn_url cfg env fs = Inr (JStr v))
   \<and> (p_aryn_url cfg = None \<and> \<not> truthy (env ARYN_URL_ENV_VAR)
        \<and> fs (p_aryn_config_path cfg) = Some (Inr (JObj kvs)) \<and> map_of kvs ''aryn_url'' = Some w
        \<and> w \<noteq> JNull \<longrightarrow>
        aryn_url cfg env fs = Inr w)
   \<and> (p_aryn_url cfg = None \<and> \<not> truthy (env ARYN_URL_ENV_VAR) \<and> fs (p_aryn_config_path cfg) = None \<longrightarrow>
        aryn_url cfg env fs = Inr (JStr DEFAULT_ARYN_URL))
   \<and> (p_aryn_url cfg = None \<and> \<not> truthy (env ARYN_URL_ENV_VAR)
        \<and> fs (p_aryn_config_path cfg) = Some (Inr (JObj kvs))
        \<and> (map_of kvs ''aryn_url'' = None \<or> map_of kvs ''aryn_url'' = Some JNull) \<longrightarrow>
        aryn_url cfg env fs = Inl (ValueError (aryn_url_message cfg)))
   \<and> DEFAULT_ARYN_URL = ''https://api.aryn.ai''"
  by (auto simp: aryn_url_def aryn_url_found_def truthy_def DEFAULT_ARYN_URL_def)

theorem aryn_url_resolution_witness:
  "aryn_url example_config no_environ no_files = Inr (JStr ''https://api.aryn.ai'')
   \<and> aryn_url example_config (\<lambda>k. if k = ''ARYN_API_URL'' then Some ''http://localhost:8000'' else None)
        no_files
     = Inr (JStr ''http://localhost:8000'')"
proof -
  let ?env = "\<lambda>k. if k = ''ARYN_API_URL'' then Some ''http://localhost:8000'' else None"
  have h: "p_aryn_url example_config = None \<and> \<not> truthy (no_environ ARYN_URL_ENV_VAR)
           \<and> no_files (p_aryn_config_path example_config) = None"
    by (simp add: example_config_def truthy_def no_environ_def no_files_def)
  have e: "p_aryn_url example_config = None \<and> ?env ARYN_URL_ENV_VAR = Some ''http://localhost:8000''
           \<and> ''http://localhost:8000'' \<noteq> []"
    by (simp add: example_config_def ARYN_URL_ENV_VAR_def)
  note a = aryn_url_resolution
             [where cfg = example_config and env = no_environ and fs = no_files,
              THEN conjunct2, THEN conjunct2, THEN conjunct2, THEN conjunct1, THEN mp, OF h]
  note b = aryn_url_resolution
             [where cfg = example_config and env = ?env and fs = no_files,
              THEN conjunct2, THEN conjunct1, THEN mp, OF e]
  from a b show ?thesis by (simp add: DEFAULT_ARYN_URL_def)
qed

text \<open>
  The claim as stated fails: with no explicit URL, no \<^verbatim>\<open>ARYN_API_URL\<close> and a config
  file that holds only a token, none of the three sources supplies a URL, and
  \<^verbatim>\<open>aryn_url\<close> raises the configuration error instead of returning the default.
\<close>

theorem aryn_url_default_counterexample:
  "p_aryn_url example_config = None
   \<and> no_environ ARYN_URL_ENV_VAR = None
   \<and> token_only_files (p_aryn_config_path example_config)
       = Some (Inr (JObj [(''aryn_token'', JStr ''k1'')]))
   \<and> aryn_url example_config no_environ token_only_files
       = Inl (ValueError (''Could not find an aryn url. Checked the ARYN_API_URL env var, ''
                           @ ''the /home/u/.aryn/config.yaml config file, and the aryn_url parameter''))
   \<and> aryn_url example_config no_environ token_only_files \<noteq> Inr (JStr DEFAULT_ARYN_URL)"
  by (simp add: aryn_url_def aryn_url_found_def aryn_url_message_def truthy_def example_config_def
      no_environ_def token_only_files_def ARYN_URL_ENV_VAR_def)

section \<open>Traversing a listing\<close>

lemma decode_items_append:
  "decode_items ty (xs @ ys) =
     (case decode_items ty xs of
        Inl e \<Rightarrow> Inl e
      | Inr a \<Rightarrow> (case decode_items ty ys of Inl e \<Rightarrow> Inl e | Inr b \<Rightarrow> Inr (a @ b)))"
  by (induction ty xs rule: decode_items.induct) (auto split: sum.splits)

lemma decode_items_in_order:
  "decode_items ty xs = Inr vs \<Longrightarrow>
   list_all2 (\<lambda>x v. \<exists>kvs. x = JObj kvs \<and> ty kvs = Inr v) xs vs"
  by (induction ty xs arbitrary: vs rule: decode_items.induct) (auto split: sum.splits)

lemma drain_last_page:
  "page_of (list_key eng) held = Inr (items, None) \<Longrightarrow> \<exists>r. drain tr eng held acc sent = Some (r, sent)"
  by (subst drain.simps) (simp split: sum.splits)

lemma drain_chain:
  "page_chain tr eng sent held pages \<Longrightarrow>
   decode_items (item_type eng) (concat pages) = Inr vs \<Longrightarrow>
   \<exists>fetched. drain tr eng held acc sent = Some (Inr (acc @ vs), sent @ fetched)
            \<and> length fetched = length pages - 1"
proof (induction tr eng sent held pages arbitrary: acc vs rule: page_chain.induct)
  case (1 tr eng sent held)
  then show ?case by simp
next
  case (2 tr eng sent held p)
  then show ?case by (subst drain.simps) simp
next
  case (3 tr eng sent held p q ps)
  from "3.prems"(1) obtain t where
    page: "page_of (list_key eng) held = Inr (p, Some t)" and
    inner: "(case tr sent (with_page_token (request_descriptor eng) t) of
               Inr res' \<Rightarrow>
                 status_code res' < 300 \<and>
                 page_chain tr eng (sent @ [with_page_token (request_descriptor eng) t]) res' (q # ps)
             | Inl e \<Rightarrow> False)"
    by (cases "page_of (list_key eng) held") (auto split: option.splits)
  from inner obtain res' where
    reply: "tr sent (with_page_token (request_descriptor eng) t) = Inr res'" and
    ok: "status_code res' < 300" and
    rest: "page_chain tr eng (sent @ [with_page_token (request_descriptor eng) t]) res' (q # ps)"
    by (cases "tr sent (with_page_token (request_descriptor eng) t)") auto
  from "3.prems"(2) obtain a b where
    a: "decode_items (item_type eng) p = Inr a" and
    b: "decode_items (item_type eng) (concat (q # ps)) = Inr b" and
    vs: "vs = a @ b"
    by (auto simp: decode_items_append split: sum.splits)
  from "3.IH" [OF page refl refl reply rest b, of "acc @ a"] obtain fetched where
    f: "drain tr eng res' (acc @ a) (sent @ [with_page_token (request_descriptor eng) t])
          = Some (Inr ((acc @ a) @ b), (sent @ [with_page_token (request_descriptor eng) t]) @ fetched)"
    and n: "length fetched = length (q # ps) - 1"
    by blast
  have raw: "make_raw_request tr (with_page_token (request_descriptor eng) t) sent
               = (Inr res', sent @ [with_page_token (request_descriptor eng) t])"
    using reply ok by (simp add: make_raw_request_Inr)
  have "drain tr eng held acc sent
          = Some (Inr (acc @ vs), sent @ (with_page_token (request_descriptor eng) t # fetched))"
    by (subst drain.simps) (simp add: page a raw f vs)
  with n show ?case
    by (intro exI [of _ "with_page_token (request_descriptor eng) t # fetched"]) simp
qed

text \<open>
  Claim C3. Let a listing be served as the pages \<open>pages\<close> (at least one; the items may
  be spread over them in any way, and pages may be empty), starting with the first
  page the engine holds, and let every raw item decode as the item shape. Then
  materializing the engine returns: it yields the decoded items of all pages, as many
  as the listing has raw items and in the server's order, and it has issued one
  continuation fetch for each page after the first and no other request. From a held
  page that carries no continuation token no request is issued at all.
\<close>

theorem materialize_yields_all_items:
  assumes "page_chain tr eng sent (first_response eng) pages"
      and "decode_items (item_type eng) (concat pages) = Inr vs"
  shows "(\<exists>fetched. materialize tr eng sent = Some (Inr vs, sent @ fetched)
                   \<and> length fetched = length pages - 1)
       \<and> length vs = length (concat pages)
       \<and> list_all2 (\<lambda>x v. \<exists>kvs. x = JObj kvs \<and> item_type eng kvs = Inr v) (concat pages) vs
       \<and> (\<forall>held items acc sent'.
             page_of (list_key eng) held = Inr (items, None) \<longrightarrow>
             (\<exists>r. drain tr eng held acc sent' = Some (r, sent')))"
proof -
  from drain_chain [OF assms, of "[]"]
  have a: "\<exists>fetched. materialize tr eng sent = Some (Inr vs, sent @ fetched)
                    \<and> length fetched = length pages - 1"
    by (simp add: materialize_def)
  note b = decode_items_in_order [OF assms(2)]
  from b have c: "length vs = length (concat pages)"
    by (simp add: list_all2_lengthD)
  have d: "\<forall>held items acc sent'.
             page_of (list_key eng) held = Inr (items, None) \<longrightarrow>
             (\<exists>r. drain tr eng held acc sent' = Some (r, sent'))"
    by (blast intro: drain_last_page)
  from a c b d show ?thesis by (intro conjI)
qed

theorem materialize_yields_all_items_witness:
  "\<exists>fetched.
     list_docsets example_listing x_shape None None None None []
       = (Inr example_engine, [list_docsets_request None None None None])
     \<and> materialize example_listing example_engine [list_docsets_request None None None None]
       = Some (Inr [1, 2, 3], list_docsets_request None None None None # fetched)
     \<and> length fetched = 1"
proof -
  let ?first = "list_docsets_request None None None None"
  have h0: "list_docsets example_listing x_shape None None None None [] = (Inr example_engine, [?first])"
    by (simp add: list_docsets_def Let_def make_paginated_request_def make_raw_request_def send_def
        example_listing_def example_engine_def example_page_def example_response_def
        list_docsets_request_def or_None_def opt_param_def)
  have h1: "page_chain example_listing example_engine [?first] (first_response example_engine)
              [[example_item 1, example_item 2], [example_item 3]]"
    by (simp add: example_listing_def example_engine_def example_page_def example_response_def
        page_of_def with_page_token_def list_docsets_request_def or_None_def opt_param_def)
  have h2: "decode_items (item_type example_engine)
              (concat [[example_item 1, example_item 2], [example_item 3]]) = Inr [1, 2, 3]"
    by (simp add: example_engine_def example_item_def x_shape_def)
  from materialize_yields_all_items [OF h1 h2, THEN conjunct1] h0
  show ?thesis by simp
qed

end
